theory Spec2Isabelle
  imports Main
begin

section \<open>Python values, exceptions and the built-ins the search code uses\<close>

text \<open>
  The values that reach the search code are decoded JSON: \<open>None\<close>, booleans, integers,
  strings, lists and dicts. A dict is an association list in insertion order whose keys
  are distinct (as a decoded JSON object is); a string is a list of characters, one
  \<open>char\<close> per code point. Numbers with a fractional part are left out: no code path
  below computes with one.
\<close>

datatype pyval =
    PNone
  | PBool bool
  | PInt int
  | PStr string
  | PList "pyval list"
  | PDict "(string \<times> pyval) list"

text \<open>
  The exceptions that can occur. \<open>Failure d\<close> is any \<open>Exception\<close> raised by the HTTP
  exchange (connection refused, timeout, DNS failure, a body that is not JSON), \<open>d\<close>
  identifying it. The text \<open>str(e)\<close> of an exception is chosen by the interpreter and the
  HTTP library; the functions below take it as the parameter \<open>describe\<close>.
\<close>

datatype exn = TypeError | AttributeError | KeyError | ValueError | Failure string

text \<open>Sequencing of steps that may raise: the first exception ends the computation.\<close>

definition bindE :: "exn + 'a \<Rightarrow> ('a \<Rightarrow> exn + 'b) \<Rightarrow> exn + 'b" where
  "bindE m f = (case m of Inl e \<Rightarrow> Inl e | Inr x \<Rightarrow> f x)"

subsection \<open>Strings\<close>

text \<open>
  \<open>str.upper()\<close>, on the letters a to z. Other characters are left as they are; none of
  them has A, N or D as its upper case, so the comparison \<open>operator.upper() == "AND"\<close>
  is decided as Python decides it.
\<close>

definition upper_char :: "char \<Rightarrow> char" where
  "upper_char c =
     (let n = (of_char c :: nat) in if 97 \<le> n \<and> n \<le> 122 then char_of (n - 32) else c)"

definition upper :: "string \<Rightarrow> string" where
  "upper s = map upper_char s"

text \<open>
  \<open>str.strip()\<close> removes leading and trailing whitespace: the code points 9 to 13,
  28 to 32, 133 and 160 among the first 256.
\<close>

definition isspace :: "char \<Rightarrow> bool" where
  "isspace c = ((of_char c :: nat) \<in> {9, 10, 11, 12, 13, 28, 29, 30, 31, 32, 133, 160})"

definition strip :: "string \<Rightarrow> string" where
  "strip s = rev (dropWhile isspace (rev (dropWhile isspace s)))"

text \<open>\<open>sep.join(parts)\<close>.\<close>

fun str_join :: "string \<Rightarrow> string list \<Rightarrow> string" where
  "str_join sep [] = []"
| "str_join sep [x] = x"
| "str_join sep (x # y # ys) = x @ sep @ str_join sep (y # ys)"

text \<open>\<open>needle in haystack\<close> on strings: the needle occurs as a contiguous run.\<close>

definition substring :: "string \<Rightarrow> string \<Rightarrow> bool" where
  "substring needle hay =
     list_ex (\<lambda>i. take (length needle) (drop i hay) = needle) [0 ..< Suc (length hay)]"

text \<open>\<open>str(n)\<close> for an integer: decimal digits, with a minus sign when negative.\<close>

definition digit_char :: "nat \<Rightarrow> char" where
  "digit_char d = char_of (48 + d)"

fun str_nat :: "nat \<Rightarrow> string" where
  "str_nat n = (if n < 10 then [digit_char n] else str_nat (n div 10) @ [digit_char (n mod 10)])"

declare str_nat.simps [simp del]

definition str_int :: "int \<Rightarrow> string" where
  "str_int i = (if i < 0 then CHR ''-'' # str_nat (nat (- i)) else str_nat (nat i))"

text \<open>
  \<open>int(s)\<close> for a string, base 10: surrounding whitespace is dropped, one sign is allowed,
  then digits, where single underscores may stand between digits. \<open>None\<close> is Python's
  \<open>ValueError\<close>. The whitespace \<open>int\<close> drops is narrower than that of \<open>strip\<close>: the
  code points 9 to 13, 32, 133 and 160; with one of the separators 28 to 31 the string
  is refused. (The interpreter's configurable cap on the number of digits is not
  modelled.)
\<close>

definition isdigit :: "char \<Rightarrow> bool" where
  "isdigit c = (let n = (of_char c :: nat) in 48 \<le> n \<and> n \<le> 57)"

definition int_isspace :: "char \<Rightarrow> bool" where
  "int_isspace c = ((of_char c :: nat) \<in> {9, 10, 11, 12, 13, 32, 133, 160})"

fun parse_digits :: "nat \<Rightarrow> bool \<Rightarrow> string \<Rightarrow> nat option" where
  "parse_digits acc after_digit [] = (if after_digit then Some acc else None)"
| "parse_digits acc after_digit (c # cs) =
     (if isdigit c then parse_digits (acc * 10 + (of_char c - 48)) True cs
      else if c = CHR ''_'' \<and> after_digit then parse_digits acc False cs
      else None)"

definition int_of_str :: "string \<Rightarrow> int option" where
  "int_of_str s =
     (case rev (dropWhile int_isspace (rev (dropWhile int_isspace s))) of
        [] \<Rightarrow> None
      | c # cs \<Rightarrow>
          if c = CHR ''-'' then map_option (\<lambda>n. - int n) (parse_digits 0 False cs)
          else if c = CHR ''+'' then map_option int (parse_digits 0 False cs)
          else map_option int (parse_digits 0 False (c # cs)))"

subsection \<open>Operations on values\<close>

text \<open>\<open>int(v)\<close>.\<close>

fun py_int :: "pyval \<Rightarrow> exn + int" where
  "py_int (PInt n) = Inr n"
| "py_int (PBool b) = Inr (if b then 1 else 0)"
| "py_int (PStr s) = (case int_of_str s of None \<Rightarrow> Inl ValueError | Some n \<Rightarrow> Inr n)"
| "py_int _ = Inl TypeError"

text \<open>\<open>key in v\<close> for a string key: a dict is asked for the key, a list for an equal
  element, a string for a substring; anything else is not iterable.\<close>

fun py_contains :: "pyval \<Rightarrow> string \<Rightarrow> exn + bool" where
  "py_contains (PDict kvs) k = Inr (k \<in> set (map fst kvs))"
| "py_contains (PList xs) k = Inr (PStr k \<in> set xs)"
| "py_contains (PStr s) k = Inr (substring k s)"
| "py_contains _ k = Inl TypeError"

text \<open>\<open>v[key]\<close> for a string key.\<close>

fun py_getitem :: "pyval \<Rightarrow> string \<Rightarrow> exn + pyval" where
  "py_getitem (PDict kvs) k = (case map_of kvs k of None \<Rightarrow> Inl KeyError | Some v \<Rightarrow> Inr v)"
| "py_getitem _ k = Inl TypeError"

text \<open>\<open>v.get(key, default)\<close>: only a dict has the method.\<close>

fun py_get :: "pyval \<Rightarrow> string \<Rightarrow> pyval \<Rightarrow> exn + pyval" where
  "py_get (PDict kvs) k d = Inr (case map_of kvs k of None \<Rightarrow> d | Some v \<Rightarrow> v)"
| "py_get _ k d = Inl AttributeError"

text \<open>\<open>len(v)\<close>.\<close>

fun py_len :: "pyval \<Rightarrow> exn + nat" where
  "py_len (PList xs) = Inr (length xs)"
| "py_len (PStr s) = Inr (length s)"
| "py_len (PDict kvs) = Inr (length kvs)"
| "py_len _ = Inl TypeError"

text \<open>\<open>isinstance(v, dict)\<close>.\<close>

fun is_dict :: "pyval \<Rightarrow> bool" where
  "is_dict (PDict kvs) = True"
| "is_dict _ = False"

text \<open>The elements a \<open>for\<close> loop over \<open>v\<close> visits.\<close>

fun py_iter :: "pyval \<Rightarrow> exn + pyval list" where
  "py_iter (PList xs) = Inr xs"
| "py_iter (PStr s) = Inr (map (\<lambda>c. PStr [c]) s)"
| "py_iter (PDict kvs) = Inr (map (\<lambda>kv. PStr (fst kv)) kvs)"
| "py_iter _ = Inl TypeError"

section \<open>The HTTP exchange\<close>

text \<open>
  One POST: the URL, the form fields in the order \<open>add_field\<close> adds them, the headers.
  The functions return the list of requests they sent next to their result, so that
  "no network call" is the empty list.
\<close>

record request =
  url :: string
  form :: "(string \<times> string) list"
  headers :: "(string \<times> string) list"

text \<open>
  What the exchange does inside the \<open>try\<close> block: it raises, or it yields a response
  with its status, the outcome of \<open>resp.json()\<close> and the outcome of \<open>resp.text()\<close>.
\<close>

datatype upstream =
    Raises exn
  | Responds int "exn + pyval" "exn + string"

definition BASE_URL :: string where
  "BASE_URL = ''https://developer.uspto.gov/ds-api''"

definition DATASET :: string where
  "DATASET = ''enriched_cited_reference_metadata''"

definition VERSION :: string where
  "VERSION = ''v3''"

definition records_url :: string where
  "records_url = BASE_URL @ ''/'' @ DATASET @ ''/'' @ VERSION @ ''/records''"

section \<open>app.py: the web path\<close>

text \<open>The three-key dict every error return builds.\<close>

definition error_result :: "string \<Rightarrow> pyval" where
  "error_result msg =
     PDict [(''error'', PStr msg), (''results'', PList []), (''total'', PInt 0)]"

text \<open>Lines 34 to 40: the Lucene query.\<close>

definition build_criteria :: "string list \<Rightarrow> string \<Rightarrow> string" where
  "build_criteria keywords operator =
     (if upper operator = ''AND''
      then str_join '' AND '' (map (\<lambda>kw. ''*:'' @ kw @ ''*'') keywords)
      else str_join '' OR '' (map (\<lambda>kw. ''*:'' @ kw @ ''*'') keywords))"

text \<open>Lines 68 to 90: the three shapes of a decoded body.\<close>

definition extract_records :: "string \<Rightarrow> pyval \<Rightarrow> exn + pyval" where
  "extract_records criteria data =
     bindE (py_contains data ''response'') (\<lambda>has_response.
       if has_response then
         bindE (py_getitem data ''response'') (\<lambda>response.
         bindE (py_get response ''docs'' (PList [])) (\<lambda>docs.
         bindE (py_get response ''numFound'' (PInt 0)) (\<lambda>num_found.
         bindE (py_len docs) (\<lambda>n.
           Inr (PDict [(''results'', docs), (''total'', num_found),
                       (''shown'', PInt (int n)), (''query'', PStr criteria)])))))
       else
         bindE (py_contains data ''docs'') (\<lambda>has_docs.
           if has_docs then
             bindE (py_getitem data ''docs'') (\<lambda>docs.
             bindE (py_len docs) (\<lambda>n.
               Inr (PDict [(''results'', docs), (''total'', PInt (int n)),
                           (''shown'', PInt (int n)), (''query'', PStr criteria)])))
           else
             Inr (PDict [(''results'', if is_dict data then PList [data] else PList []),
                         (''total'', PInt (if is_dict data then 1 else 0)),
                         (''shown'', PInt (if is_dict data then 1 else 0)),
                         (''query'', PStr criteria)])))"

text \<open>
  \<open>search_uspto_dsapi(keywords, operator, limit)\<close> of app.py. \<open>Inl e\<close> is an exception
  that leaves the function. \<open>operator.upper()\<close> stands before the \<open>try\<close>: on a value that
  is not a string it raises \<open>AttributeError\<close>, which nothing catches.
\<close>

definition search_uspto_dsapi ::
  "(exn \<Rightarrow> string) \<Rightarrow> upstream \<Rightarrow> string list \<Rightarrow> pyval \<Rightarrow> int \<Rightarrow> (exn + pyval) \<times> request list" where
  "search_uspto_dsapi describe net keywords operator limit =
     (if keywords = [] then (Inr (error_result ''No keywords provided''), [])
      else
        (case operator of
           PStr op \<Rightarrow>
             (let criteria = build_criteria keywords op;
                  req = \<lparr>url = records_url,
                         form = [(''criteria'', criteria), (''start'', ''0''),
                                 (''rows'', str_int (min limit 10000))],
                         headers = [(''Accept'', ''application/json'')]\<rparr>
              in (Inr (case net of
                         Raises e \<Rightarrow> error_result (''Error making request: '' @ describe e)
                       | Responds status body text \<Rightarrow>
                           if status = 200 then
                             (case bindE body (extract_records criteria) of
                                Inl e \<Rightarrow> error_result (''Error making request: '' @ describe e)
                              | Inr result \<Rightarrow> result)
                           else
                             (case text of
                                Inl e \<Rightarrow> error_result (''Error making request: '' @ describe e)
                              | Inr error_text \<Rightarrow>
                                  error_result
                                    (''API Error '' @ str_int status @ '': '' @ error_text))),
                  [req]))
         | _ \<Rightarrow> (Inl AttributeError, [])))"

text \<open>
  Line 122: \<open>[kw.strip() for kw in keywords if kw.strip()]\<close>. An element that is not a
  string has no \<open>strip\<close>.
\<close>

fun strip_keywords :: "pyval list \<Rightarrow> exn + string list" where
  "strip_keywords [] = Inr []"
| "strip_keywords (PStr kw # rest) =
     bindE (strip_keywords rest) (\<lambda>kws. Inr (if strip kw = [] then kws else strip kw # kws))"
| "strip_keywords (v # rest) = Inl AttributeError"

text \<open>
  The route handler \<open>search()\<close>, on the decoded request body \<open>data\<close>. \<open>jsonify\<close> passes
  the dict on as it is. The limit is converted before the keywords are looked at.
\<close>

definition search :: "(exn \<Rightarrow> string) \<Rightarrow> upstream \<Rightarrow> pyval \<Rightarrow> (exn + pyval) \<times> request list" where
  "search describe net data =
     (case bindE (py_get data ''keywords'' (PList [])) (\<lambda>keywords.
           bindE (py_get data ''operator'' (PStr ''AND'')) (\<lambda>operator.
           bindE (bindE (py_get data ''limit'' (PInt 500)) py_int) (\<lambda>limit.
           bindE (bindE (py_iter keywords) strip_keywords) (\<lambda>kws.
             Inr (kws, operator, limit))))) of
        Inl e \<Rightarrow> (Inl e, [])
      | Inr (kws, operator, limit) \<Rightarrow>
          if kws = [] then (Inr (error_result ''Please provide at least one keyword''), [])
          else search_uspto_dsapi describe net kws operator limit)"

section \<open>uspto\_dsapi\_search.py: the interactive path\<close>

text \<open>
  Lines 56 to 65. The \<open>print\<close> of the first branch evaluates \<open>len(docs)\<close>, which may
  raise; what is printed is not modelled.
\<close>

definition cli_extract_records :: "pyval \<Rightarrow> exn + pyval" where
  "cli_extract_records data =
     bindE (py_contains data ''response'') (\<lambda>has_response.
       if has_response then
         bindE (py_getitem data ''response'') (\<lambda>response.
         bindE (py_get response ''docs'' (PList [])) (\<lambda>docs.
         bindE (py_get response ''numFound'' (PInt 0)) (\<lambda>num_found.
         bindE (py_len docs) (\<lambda>n. Inr docs))))
       else
         bindE (py_contains data ''docs'') (\<lambda>has_docs.
           if has_docs then py_getitem data ''docs''
           else Inr (if is_dict data then PList [data] else PList [])))"

text \<open>
  \<open>search_uspto_dsapi(keyword, limit)\<close> of the script: one keyword, no operator, and
  the value returned is the records alone.
\<close>

definition cli_search_uspto_dsapi :: "upstream \<Rightarrow> string \<Rightarrow> int \<Rightarrow> pyval \<times> request list" where
  "cli_search_uspto_dsapi net keyword limit =
     (let criteria = ''*:'' @ keyword @ ''*'';
          req = \<lparr>url = records_url,
                 form = [(''criteria'', criteria), (''start'', ''0''), (''rows'', str_int limit)],
                 headers = [(''Accept'', ''application/json'')]\<rparr>
      in (case net of
            Raises e \<Rightarrow> PList []
          | Responds status body text \<Rightarrow>
              if status = 200 then
                (case bindE body cli_extract_records of
                   Inl e \<Rightarrow> PList []
                 | Inr docs \<Rightarrow> docs)
              else PList [],
          [req]))"

section \<open>Reading results\<close>

text \<open>The value under a key of the dict a call returned, if it returned one.\<close>

definition result_field :: "exn + pyval \<Rightarrow> string \<Rightarrow> pyval option" where
  "result_field r k = (case r of Inr (PDict kvs) \<Rightarrow> map_of kvs k | _ \<Rightarrow> None)"

text \<open>The value of a form field in each request that was sent.\<close>

definition sent_field :: "request list \<Rightarrow> string \<Rightarrow> string option list" where
  "sent_field reqs k = map (\<lambda>req. map_of (form req) k) reqs"

text \<open>A fixed choice of \<open>str(e)\<close>, the class name, for the worked examples.\<close>

fun exn_name :: "exn \<Rightarrow> string" where
  "exn_name TypeError = ''TypeError''"
| "exn_name AttributeError = ''AttributeError''"
| "exn_name KeyError = ''KeyError''"
| "exn_name ValueError = ''ValueError''"
| "exn_name (Failure d) = d"

section \<open>Facts about the built-ins\<close>

lemma of_char_upper_char:
  "(of_char (upper_char c) :: nat) =
     (if 97 \<le> (of_char c :: nat) \<and> (of_char c :: nat) \<le> 122 then of_char c - 32 else of_char c)"
  by (auto simp: upper_char_def Let_def)

lemma upper_char_eq_iff:
  assumes "(of_char u :: nat) = n" "65 \<le> n" "n \<le> 90"
  shows "upper_char c = u \<longleftrightarrow> c = u \<or> (of_char c :: nat) = n + 32"
proof -
  have "upper_char c = u \<longleftrightarrow> (of_char (upper_char c) :: nat) = of_char u"
    by simp
  also have "\<dots> \<longleftrightarrow> (of_char c :: nat) = n \<or> (of_char c :: nat) = n + 32"
    using assms by (auto simp: of_char_upper_char)
  also have "\<dots> \<longleftrightarrow> c = u \<or> (of_char c :: nat) = n + 32"
    using assms(1) of_char_eq_iff [of c u, where 'a = nat] by auto
  finally show ?thesis .
qed

lemma upper_char_A: "upper_char c = CHR ''A'' \<longleftrightarrow> c = CHR ''A'' \<or> c = CHR ''a''"
  using upper_char_eq_iff [of "CHR ''A''" 65 c] of_char_eq_iff [of c "CHR ''a''", where 'a = nat]
  by simp

lemma upper_char_N: "upper_char c = CHR ''N'' \<longleftrightarrow> c = CHR ''N'' \<or> c = CHR ''n''"
  using upper_char_eq_iff [of "CHR ''N''" 78 c] of_char_eq_iff [of c "CHR ''n''", where 'a = nat]
  by simp

lemma upper_char_D: "upper_char c = CHR ''D'' \<longleftrightarrow> c = CHR ''D'' \<or> c = CHR ''d''"
  using upper_char_eq_iff [of "CHR ''D''" 68 c] of_char_eq_iff [of c "CHR ''d''", where 'a = nat]
  by simp

lemma upper_AND_iff:
  "upper operator = ''AND'' \<longleftrightarrow>
     operator \<in> {''AND'', ''ANd'', ''AnD'', ''And'', ''aND'', ''aNd'', ''anD'', ''and''}"
proof -
  have "upper operator = ''AND'' \<longleftrightarrow>
          (\<exists>a n d. operator = [a, n, d] \<and> upper_char a = CHR ''A'' \<and> upper_char n = CHR ''N''
             \<and> upper_char d = CHR ''D'')"
    by (auto simp: upper_def map_eq_Cons_conv)
  also have "\<dots> \<longleftrightarrow>
     operator \<in> {''AND'', ''ANd'', ''AnD'', ''And'', ''aND'', ''aNd'', ''anD'', ''and''}"
    unfolding upper_char_A upper_char_N upper_char_D by auto
  finally show ?thesis .
qed

lemma str_join_Cons: "str_join sep (x # xs) = x @ concat (map (\<lambda>y. sep @ y) xs)"
  by (induction xs arbitrary: x) simp_all

lemma set_str_join: "set (str_join sep xs) \<subseteq> set sep \<union> \<Union> (set ` set xs)"
  by (induction sep xs rule: str_join.induct) auto

section \<open>The query builder\<close>

text \<open>The one request a search with keywords and a string operator sends.\<close>

lemma sent_request:
  assumes "keywords \<noteq> []"
  shows "snd (search_uspto_dsapi describe net keywords (PStr operator) limit) =
           [\<lparr>url = records_url,
             form = [(''criteria'', build_criteria keywords operator), (''start'', ''0''),
                     (''rows'', str_int (min limit 10000))],
             headers = [(''Accept'', ''application/json'')]\<rparr>]"
  using assms by (simp add: search_uspto_dsapi_def Let_def)

text \<open>
  Claim C1 as the specification words it: clauses are joined with OR only when the
  operator is "OR" in any letter case, and every other value gives AND. The code tests
  for "AND" instead: with the empty string as operator the two keywords are joined by
  OR, not by AND.
\<close>

theorem C1_counterexample:
  "build_criteria [''solar'', ''panel''] '''' = ''*:solar* OR *:panel*'' \<and>
   build_criteria [''solar'', ''panel''] '''' \<noteq> ''*:solar* AND *:panel*''"
  by (simp add: build_criteria_def upper_def)

text \<open>
  Claim C1, amended: for every keyword list and every operator string, the clauses are
  joined with AND exactly when the operator is one of the eight spellings of "AND" in
  upper and lower case letters; every other string, "or", the empty string and unknown
  words alike, gives clauses joined with OR.
\<close>

theorem C1_operator_selection:
  "build_criteria keywords operator =
     str_join
       (if operator \<in> {''AND'', ''ANd'', ''AnD'', ''And'', ''aND'', ''aNd'', ''anD'', ''and''}
        then '' AND '' else '' OR '')
       (map (\<lambda>kw. ''*:'' @ kw @ ''*'') keywords)"
  unfolding build_criteria_def upper_AND_iff by simp

text \<open>The amended claim C1 at the operators "aNd", "or" and "xor".\<close>

theorem C1_operator_selection_witness:
  "build_criteria [''solar'', ''panel''] ''aNd'' = ''*:solar* AND *:panel*'' \<and>
   build_criteria [''solar'', ''panel''] ''or'' = ''*:solar* OR *:panel*'' \<and>
   build_criteria [''solar'', ''panel''] ''xor'' = ''*:solar* OR *:panel*''"
  using C1_operator_selection [of "[''solar'', ''panel'']" "''aNd''"]
    C1_operator_selection [of "[''solar'', ''panel'']" "''or''"]
    C1_operator_selection [of "[''solar'', ''panel'']" "''xor''"]
  by simp

text \<open>
  Claim C7: for a non-empty keyword sequence and any string operator, the query is the
  clause \<open>*:k*\<close> of the first keyword followed, for each further keyword in order, by
  the token of the operator and that keyword's clause: one clause per keyword, flat. The
  token is " AND " when the operator is a spelling of "AND" and " OR " for every other
  operator. Every character of the query comes from the clause syntax, from the
  operator token or unchanged from a keyword, so no parenthesis and no escape character
  is added. This query is the \<open>criteria\<close> field of the request sent.
\<close>

theorem C7_flat_wildcard_clauses:
  assumes "keywords = k # ks"
  shows "build_criteria keywords operator =
           (''*:'' @ k @ ''*'') @
           concat (map (\<lambda>kw.
             (if operator \<in> {''AND'', ''ANd'', ''AnD'', ''And'', ''aND'', ''aNd'', ''anD'', ''and''}
              then '' AND '' else '' OR '') @ ''*:'' @ kw @ ''*'') ks) \<and>
         (\<forall>c \<in> set (build_criteria keywords operator).
            c \<in> set ''*: ANDOR'' \<or> (\<exists>kw \<in> set keywords. c \<in> set kw)) \<and>
         sent_field (snd (search_uspto_dsapi describe net keywords (PStr operator) limit))
            ''criteria'' = [Some (build_criteria keywords operator)]"
proof (intro conjI)
  let ?clauses = "map (\<lambda>kw. ''*:'' @ kw @ ''*'') keywords"
  let ?sep = "if operator \<in> {''AND'', ''ANd'', ''AnD'', ''And'', ''aND'', ''aNd'', ''anD'', ''and''}
              then '' AND '' else '' OR ''"
  have crit: "build_criteria keywords operator = str_join ?sep ?clauses"
    unfolding build_criteria_def upper_AND_iff by simp
  have "str_join ?sep ?clauses =
          (''*:'' @ k @ ''*'') @ concat (map (\<lambda>kw. ?sep @ ''*:'' @ kw @ ''*'') ks)"
    unfolding assms list.map str_join_Cons by (simp add: comp_def)
  with crit show "build_criteria keywords operator =
           (''*:'' @ k @ ''*'') @
           concat (map (\<lambda>kw.
             (if operator \<in> {''AND'', ''ANd'', ''AnD'', ''And'', ''aND'', ''aNd'', ''anD'', ''and''}
              then '' AND '' else '' OR '') @ ''*:'' @ kw @ ''*'') ks)"
    by simp
  show "\<forall>c \<in> set (build_criteria keywords operator).
            c \<in> set ''*: ANDOR'' \<or> (\<exists>kw \<in> set keywords. c \<in> set kw)"
  proof
    fix c assume "c \<in> set (build_criteria keywords operator)"
    with crit set_str_join [of ?sep ?clauses]
    have "c \<in> set ?sep \<union> \<Union> (set ` set ?clauses)" by auto
    then show "c \<in> set ''*: ANDOR'' \<or> (\<exists>kw \<in> set keywords. c \<in> set kw)"
      by (auto split: if_splits)
  qed
  show "sent_field (snd (search_uspto_dsapi describe net keywords (PStr operator) limit))
            ''criteria'' = [Some (build_criteria keywords operator)]"
    using assms by (simp add: sent_request sent_field_def)
qed

text \<open>Claim C7 at three keywords, one of them with parentheses of its own, for the
  operator "AND" and for the operator "or".\<close>

theorem C7_flat_wildcard_clauses_witness:
  "build_criteria [''solar'', ''panel'', ''(x)''] ''AND'' = ''*:solar* AND *:panel* AND *:(x)*'' \<and>
   build_criteria [''solar'', ''panel'', ''(x)''] ''or'' = ''*:solar* OR *:panel* OR *:(x)*'' \<and>
   sent_field (snd (search_uspto_dsapi exn_name (Raises (Failure ''timeout''))
       [''solar'', ''panel'', ''(x)''] (PStr ''AND'') 25)) ''criteria''
     = [Some ''*:solar* AND *:panel* AND *:(x)*'']"
  using C7_flat_wildcard_clauses [of "[''solar'', ''panel'', ''(x)'']" "''solar''"
      "[''panel'', ''(x)'']" "''AND''" exn_name "Raises (Failure ''timeout'')" 25]
    C7_flat_wildcard_clauses [of "[''solar'', ''panel'', ''(x)'']" "''solar''"
      "[''panel'', ''(x)'']" "''or''" exn_name "Raises (Failure ''timeout'')" 25]
  by simp

section \<open>Evaluating the built-ins\<close>

lemma str_int_examples:
  "str_int 10000 = ''10000''" "str_int 50000 = ''50000''" "str_int 500 = ''500''"
  "str_int 201 = ''201''" "str_int 25 = ''25''" "str_int 10 = ''10''"
  by (simp_all add: str_int_def str_nat.simps digit_char_def char_of_eq_iff)

lemma isspace_space: "isspace (CHR '' '')"
  by (simp add: isspace_def)

lemma strip_blank: "strip ''  '' = []" "strip '''' = []"
  by (simp_all add: strip_def isspace_def)

text \<open>\<open>int\<close> on strings: padding, sign and underscores; a separator of the range 28 to 31,
  which \<open>strip\<close> removes, makes \<open>int\<close> fail.\<close>

lemma int_of_str_examples:
  "int_of_str '' 1_000 '' = Some 1000"
  "int_of_str ''-42'' = Some (- 42)"
  "int_of_str [CHR 0x1C, CHR ''5''] = None"
  "int_of_str ''- 5'' = None"
  "int_of_str ''1__0'' = None"
  "int_of_str '''' = None"
  by (simp_all add: int_of_str_def int_isspace_def isdigit_def)

lemma strip_separator: "strip [CHR 0x1C, CHR ''5''] = ''5''"
  by (simp add: strip_def isspace_def)

lemma py_int_separator: "py_int (PStr [CHR 0x1C, CHR ''5'']) = Inl ValueError"
  by (simp add: int_of_str_examples)

section \<open>The search function, outcome by outcome\<close>

lemma search_no_keywords:
  "search_uspto_dsapi describe net [] operator limit =
     (Inr (error_result ''No keywords provided''), [])"
  by (simp add: search_uspto_dsapi_def)

lemma search_not_str:
  assumes "keywords \<noteq> []" "\<nexists>op. operator = PStr op"
  shows "search_uspto_dsapi describe net keywords operator limit = (Inl AttributeError, [])"
  using assms by (cases operator) (simp_all add: search_uspto_dsapi_def)

lemma search_raises:
  assumes "keywords \<noteq> []"
  shows "fst (search_uspto_dsapi describe (Raises e) keywords (PStr operator) limit) =
           Inr (error_result (''Error making request: '' @ describe e))"
  using assms by (simp add: search_uspto_dsapi_def Let_def)

lemma search_not_200:
  assumes "keywords \<noteq> []" "status \<noteq> 200"
  shows "fst (search_uspto_dsapi describe (Responds status body text) keywords (PStr operator) limit) =
           Inr (error_result
                  (case text of
                     Inl e \<Rightarrow> ''Error making request: '' @ describe e
                   | Inr error_text \<Rightarrow> ''API Error '' @ str_int status @ '': '' @ error_text))"
  using assms by (simp add: search_uspto_dsapi_def Let_def split: sum.splits)

lemma search_200:
  assumes "keywords \<noteq> []"
  shows "fst (search_uspto_dsapi describe (Responds 200 body text) keywords (PStr operator) limit) =
           Inr (case bindE body (extract_records (build_criteria keywords operator)) of
                  Inl e \<Rightarrow> error_result (''Error making request: '' @ describe e)
                | Inr result \<Rightarrow> result)"
  using assms by (simp add: search_uspto_dsapi_def Let_def)

lemma cli_sent_request:
  "snd (cli_search_uspto_dsapi net keyword limit) =
     [\<lparr>url = records_url,
       form = [(''criteria'', ''*:'' @ keyword @ ''*''), (''start'', ''0''),
               (''rows'', str_int limit)],
       headers = [(''Accept'', ''application/json'')]\<rparr>]"
  by (simp add: cli_search_uspto_dsapi_def Let_def)

section \<open>The row limit\<close>

text \<open>On the web path the \<open>rows\<close> field is the decimal text of the limit, cut at 10000.\<close>

lemma web_rows_clamped:
  assumes "keywords \<noteq> []"
  shows "\<exists>rows. rows \<le> 10000 \<and> (limit \<le> 10000 \<longrightarrow> rows = limit) \<and>
           sent_field (snd (search_uspto_dsapi describe net keywords (PStr operator) limit)) ''rows''
             = [Some (str_int rows)]"
  using assms by (intro exI [of _ "min limit 10000"]) (simp add: sent_request sent_field_def)

text \<open>
  Claim C3 says that the transmitted \<open>rows\<close> value is clamped to 10000 on both entry
  points. At the limit 50000 the web path sends "10000", as the claim says; the
  interactive path sends "50000": its line 36 is \<open>str(limit)\<close>, without the \<open>min\<close> of
  the web path.
\<close>

theorem C3_interactive_rows_not_clamped:
  "sent_field (snd (search_uspto_dsapi describe net (k # ks) (PStr operator) 50000)) ''rows''
     = [Some ''10000''] \<and>
   sent_field (snd (cli_search_uspto_dsapi net keyword 50000)) ''rows'' = [Some ''50000'']"
  by (simp add: sent_request cli_sent_request sent_field_def str_int_examples)

section \<open>Statuses other than 200\<close>

text \<open>
  Claim C4 as the specification words it: for every response with a status outside
  200..299 the error carries the status code and the body text. When reading the body
  text fails (line 92 raises), the \<open>except\<close> clause answers: the error is "Error making
  request: " with the failure's description, and the status 500 is not in it.
\<close>

theorem C4_counterexample:
  "fst (search_uspto_dsapi exn_name
          (Responds 500 (Inl (Failure ''not JSON'')) (Inl (Failure ''connection lost'')))
          [''laser''] (PStr ''AND'') 10) =
     Inr (PDict [(''error'', PStr ''Error making request: connection lost''),
                 (''results'', PList []), (''total'', PInt 0)])"
  by (simp add: search_not_200 error_result_def)

text \<open>
  Claim C4, amended: for every response to a search (non-empty keywords, a string
  operator) with a status outside 200..299, the function returns normally, with a dict
  whose results are empty and whose total is 0, and whose error is set: when the body
  text can be read, to "API Error", the status in decimal, a colon and the body text
  unchanged; when reading it fails, to "Error making request: " and the failure's
  description.
\<close>

theorem C4_non_2xx_is_an_error_result:
  assumes "keywords \<noteq> []" and "status < 200 \<or> 300 \<le> status"
  shows "fst (search_uspto_dsapi describe (Responds status body reply)
                keywords (PStr operator) limit) =
           Inr (PDict [(''error'',
                        PStr (case reply of
                                Inr error_text \<Rightarrow>
                                  ''API Error '' @ str_int status @ '': '' @ error_text
                              | Inl e \<Rightarrow> ''Error making request: '' @ describe e)),
                       (''results'', PList []), (''total'', PInt 0)])"
proof -
  from assms(2) have "status \<noteq> 200" by auto
  with assms(1) show ?thesis
    by (simp add: search_not_200 error_result_def split: sum.splits)
qed

text \<open>The amended claim C4 at status 500 with the body "internal error", and at status
  404 with a body that cannot be read.\<close>

theorem C4_non_2xx_is_an_error_result_witness:
  "fst (search_uspto_dsapi exn_name (Responds 500 (Inl (Failure ''not JSON'')) (Inr ''internal error''))
          [''laser''] (PStr ''AND'') 10) =
     Inr (PDict [(''error'', PStr ''API Error 500: internal error''),
                 (''results'', PList []), (''total'', PInt 0)]) \<and>
   fst (search_uspto_dsapi exn_name
          (Responds 404 (Inl (Failure ''not JSON'')) (Inl (Failure ''body is not text'')))
          [''laser''] (PStr ''AND'') 10) =
     Inr (PDict [(''error'', PStr ''Error making request: body is not text''),
                 (''results'', PList []), (''total'', PInt 0)])"
  using C4_non_2xx_is_an_error_result [of "[''laser'']" 500 exn_name "Inl (Failure ''not JSON'')"
      "Inr ''internal error''" "''AND''" 10]
    C4_non_2xx_is_an_error_result [of "[''laser'']" 404 exn_name "Inl (Failure ''not JSON'')"
      "Inl (Failure ''body is not text'')" "''AND''" 10]
  by (simp add: str_int_examples)

text \<open>
  Claim C10: a response whose status is in 200..299 but is not 200 is handled by the
  error branch, whatever its body decodes to: the web path returns the "API Error" dict
  and the interactive path the empty list. A result without an error comes from status
  200 only.
\<close>

theorem C10_other_2xx_statuses_are_errors:
  assumes "keywords \<noteq> []"
  shows "(200 \<le> status \<and> status < 300 \<and> status \<noteq> 200 \<longrightarrow>
            fst (search_uspto_dsapi describe (Responds status body (Inr error_text))
                   keywords (PStr operator) limit) =
              Inr (PDict [(''error'', PStr (''API Error '' @ str_int status @ '': '' @ error_text)),
                          (''results'', PList []), (''total'', PInt 0)]) \<and>
            fst (cli_search_uspto_dsapi (Responds status body text) keyword limit) = PList []) \<and>
         (result_field
            (fst (search_uspto_dsapi describe (Responds s b t) keywords (PStr operator) limit))
            ''error'' = None \<longrightarrow> s = 200)"
proof (intro conjI impI)
  assume "200 \<le> status \<and> status < 300 \<and> status \<noteq> 200"
  then have ne: "status \<noteq> 200" by simp
  with assms show "fst (search_uspto_dsapi describe (Responds status body (Inr error_text))
                   keywords (PStr operator) limit) =
              Inr (PDict [(''error'', PStr (''API Error '' @ str_int status @ '': '' @ error_text)),
                          (''results'', PList []), (''total'', PInt 0)])"
    by (simp add: search_not_200 error_result_def)
  from ne show "fst (cli_search_uspto_dsapi (Responds status body text) keyword limit) = PList []"
    by (simp add: cli_search_uspto_dsapi_def Let_def)
next
  assume noerr: "result_field
            (fst (search_uspto_dsapi describe (Responds s b t) keywords (PStr operator) limit))
            ''error'' = None"
  show "s = 200"
  proof (rule ccontr)
    assume "s \<noteq> 200"
    with assms noerr show False
      by (simp add: search_not_200 error_result_def result_field_def)
  qed
qed

text \<open>A Solr-style body with one record, five found.\<close>

lemma search_solr_example:
  "fst (search_uspto_dsapi exn_name
          (Responds 200
             (Inr (PDict [(''response'',
                PDict [(''docs'', PList [PDict [(''a'', PInt 1)]]), (''numFound'', PInt 5)])]))
             (Inr ''''))
          [''laser''] (PStr ''AND'') 10) =
     Inr (PDict [(''results'', PList [PDict [(''a'', PInt 1)]]), (''total'', PInt 5),
                 (''shown'', PInt 1), (''query'', PStr ''*:laser*'')])"
  by (simp add: search_200 extract_records_def bindE_def build_criteria_def)

text \<open>Claim C10 at status 201, and a result without an error at status 200.\<close>

theorem C10_other_2xx_statuses_are_errors_witness:
  "fst (search_uspto_dsapi exn_name
          (Responds 201 (Inr (PDict [(''docs'', PList [PDict [(''a'', PInt 1)]])])) (Inr ''created''))
          [''laser''] (PStr ''AND'') 10) =
     Inr (PDict [(''error'', PStr ''API Error 201: created''),
                 (''results'', PList []), (''total'', PInt 0)]) \<and>
   fst (cli_search_uspto_dsapi
          (Responds 201 (Inr (PDict [(''docs'', PList [PDict [(''a'', PInt 1)]])])) (Inr ''created''))
          ''laser'' 10) = PList [] \<and>
   result_field
     (fst (search_uspto_dsapi exn_name
          (Responds 200
             (Inr (PDict [(''response'',
                PDict [(''docs'', PList [PDict [(''a'', PInt 1)]]), (''numFound'', PInt 5)])]))
             (Inr ''''))
          [''laser''] (PStr ''AND'') 10)) ''error'' = None"
  using C10_other_2xx_statuses_are_errors [of "[''laser'']" 201 exn_name
      "Inr (PDict [(''docs'', PList [PDict [(''a'', PInt 1)]])])" "''created''" "''AND''" 10
      "Inr ''created''" "''laser''" 200
      "Inr (PDict [(''response'',
                PDict [(''docs'', PList [PDict [(''a'', PInt 1)]]), (''numFound'', PInt 5)])])"
      "Inr ''''"]
  by (simp add: str_int_examples search_solr_example result_field_def)

section \<open>The shape of the results\<close>

lemma extract_records_shape:
  assumes "extract_records criteria data = Inr r"
  shows "\<exists>docs total n. py_len docs = Inr n \<and>
           r = PDict [(''results'', docs), (''total'', total), (''shown'', PInt (int n)),
                      (''query'', PStr criteria)]"
  using assms unfolding extract_records_def bindE_def
  by (auto split: sum.splits if_splits)

lemma search_returns_dict:
  assumes "keywords = [] \<or> operator = PStr op"
  shows "\<exists>d. fst (search_uspto_dsapi describe net keywords operator limit) = Inr (PDict d)"
proof (cases "keywords = []")
  case True
  then show ?thesis by (simp add: search_no_keywords error_result_def)
next
  case False
  with assms have op: "operator = PStr op" by simp
  show ?thesis
  proof (cases net)
    case (Raises e)
    with False op show ?thesis by (simp add: search_raises error_result_def)
  next
    case (Responds status body reply)
    show ?thesis
    proof (cases "status = 200")
      case True
      show ?thesis
      proof (cases "bindE body (extract_records (build_criteria keywords op))")
        case (Inl e)
        with False op Responds True show ?thesis
          by (simp add: search_200 error_result_def)
      next
        case (Inr r)
        then obtain data where "extract_records (build_criteria keywords op) data = Inr r"
          by (auto simp: bindE_def split: sum.splits)
        from extract_records_shape [OF this] obtain d where "r = PDict d" by blast
        with False op Responds True Inr show ?thesis
          by (simp add: search_200)
      qed
    next
      case ne: False
      with False op Responds show ?thesis
        by (simp add: search_not_200 error_result_def)
    qed
  qed
qed

text \<open>
  Claim C5 as the specification words it: for any operator value, null included, no
  exception leaves the search function. With keywords and the operator \<open>None\<close>,
  \<open>operator.upper()\<close> on line 34 raises before the \<open>try\<close> block is entered, and nothing
  is sent.
\<close>

theorem C5_counterexample:
  "search_uspto_dsapi exn_name (Raises (Failure ''timed out'')) [''laser''] PNone 10 =
     (Inl AttributeError, [])"
  by (simp add: search_uspto_dsapi_def)

text \<open>
  Claim C5, amended: when the operator is a string (or the keyword list is empty), the
  search function returns a dict for every limit and every outcome of the exchange, and
  when the exchange raises, the body cannot be decoded or the text of a response with
  another status than 200 cannot be read, that dict has the error set, to "Error making
  request: " and the failure's description, with empty results and total 0. With
  keywords and an operator that is not a string the call raises \<open>AttributeError\<close> and
  sends nothing.
\<close>

theorem C5_failures_become_error_results:
  "(keywords = [] \<or> operator = PStr op \<longrightarrow>
      (\<exists>d. fst (search_uspto_dsapi describe net keywords operator limit) = Inr (PDict d)) \<and>
      (net = Raises e \<or> net = Responds 200 (Inl e) text \<or>
       (status \<noteq> 200 \<and> net = Responds status body (Inl e)) \<longrightarrow>
         fst (search_uspto_dsapi describe net keywords operator limit) =
           Inr (PDict [(''error'',
                        PStr (if keywords = [] then ''No keywords provided''
                              else ''Error making request: '' @ describe e)),
                       (''results'', PList []), (''total'', PInt 0)]))) \<and>
   (keywords \<noteq> [] \<and> (\<nexists>s. operator = PStr s) \<longrightarrow>
      search_uspto_dsapi describe net keywords operator limit = (Inl AttributeError, []))"
proof (intro conjI impI)
  assume "keywords = [] \<or> operator = PStr op"
  then show "\<exists>d. fst (search_uspto_dsapi describe net keywords operator limit) = Inr (PDict d)"
    by (rule search_returns_dict)
next
  assume ok: "keywords = [] \<or> operator = PStr op"
    and fail: "net = Raises e \<or> net = Responds 200 (Inl e) text \<or>
       (status \<noteq> 200 \<and> net = Responds status body (Inl e))"
  show "fst (search_uspto_dsapi describe net keywords operator limit) =
           Inr (PDict [(''error'',
                        PStr (if keywords = [] then ''No keywords provided''
                              else ''Error making request: '' @ describe e)),
                       (''results'', PList []), (''total'', PInt 0)])"
  proof (cases "keywords = []")
    case True
    then show ?thesis by (simp add: search_no_keywords error_result_def)
  next
    case False
    with ok have op: "operator = PStr op" by simp
    from fail False op show ?thesis
      by (auto simp: search_raises search_200 search_not_200 error_result_def bindE_def)
  qed
next
  assume "keywords \<noteq> [] \<and> (\<nexists>s. operator = PStr s)"
  then show "search_uspto_dsapi describe net keywords operator limit = (Inl AttributeError, [])"
    by (simp add: search_not_str)
qed

text \<open>The amended claim C5 at a timeout, with the operator "AND" and with the operator 3.\<close>

theorem C5_failures_become_error_results_witness:
  "fst (search_uspto_dsapi exn_name (Raises (Failure ''timed out'')) [''laser''] (PStr ''AND'') 10) =
     Inr (PDict [(''error'', PStr ''Error making request: timed out''),
                 (''results'', PList []), (''total'', PInt 0)]) \<and>
   search_uspto_dsapi exn_name (Raises (Failure ''timed out'')) [''laser''] (PInt 3) 10 =
     (Inl AttributeError, [])"
  using C5_failures_become_error_results [of "[''laser'']" "PStr ''AND''" "''AND''" exn_name
      "Raises (Failure ''timed out'')" 10 "Failure ''timed out''"]
    C5_failures_become_error_results [of "[''laser'']" "PInt 3" "''AND''" exn_name
      "Raises (Failure ''timed out'')" 10]
  by simp

text \<open>
  Claim C8 as the specification words it: every result, error results included, has the
  shown count and the query. The dict returned for a status 500 has neither key.
\<close>

theorem C8_counterexample:
  "result_field
     (fst (search_uspto_dsapi exn_name (Responds 500 (Inl (Failure ''not JSON'')) (Inr ''internal error''))
             [''laser''] (PStr ''AND'') 10)) ''shown'' = None \<and>
   result_field
     (fst (search_uspto_dsapi exn_name (Responds 500 (Inl (Failure ''not JSON'')) (Inr ''internal error''))
             [''laser''] (PStr ''AND'') 10)) ''query'' = None"
  by (simp add: search_not_200 error_result_def result_field_def)

text \<open>
  Claim C8, amended: for a string operator every call returns a dict. When it has no
  error, its \<open>shown\<close> is the length of its \<open>results\<close> and its \<open>query\<close> is the query
  that was built and sent as \<open>criteria\<close>. When it has an error, its results are empty,
  its total is 0, and it has no \<open>shown\<close> and no \<open>query\<close>.
\<close>

theorem C8_result_fields:
  "\<exists>d. fst (search_uspto_dsapi describe net keywords (PStr operator) limit) = Inr (PDict d) \<and>
     (if map_of d ''error'' = None
      then \<exists>docs n.
             map_of d ''results'' = Some docs \<and> py_len docs = Inr n \<and>
             map_of d ''shown'' = Some (PInt (int n)) \<and>
             map_of d ''query'' = Some (PStr (build_criteria keywords operator)) \<and>
             sent_field (snd (search_uspto_dsapi describe net keywords (PStr operator) limit))
               ''criteria'' = [Some (build_criteria keywords operator)]
      else map_of d ''results'' = Some (PList []) \<and> map_of d ''total'' = Some (PInt 0) \<and>
           map_of d ''shown'' = None \<and> map_of d ''query'' = None)"
proof -
  let ?r = "fst (search_uspto_dsapi describe net keywords (PStr operator) limit)"
  let ?c = "build_criteria keywords operator"
  have err: "?thesis" if "?r = Inr (error_result msg)" for msg
    using that by (simp add: error_result_def)
  show ?thesis
  proof (cases "keywords = []")
    case True
    then show ?thesis by (intro err) (simp add: search_no_keywords)
  next
    case kw: False
    show ?thesis
    proof (cases net)
      case (Raises e)
      with kw show ?thesis by (intro err) (simp add: search_raises)
    next
      case (Responds status body reply)
      show ?thesis
      proof (cases "status = 200")
        case ne: False
        with kw Responds show ?thesis by (intro err) (simp add: search_not_200)
      next
        case True
        show ?thesis
        proof (cases "bindE body (extract_records ?c)")
          case (Inl e)
          with kw Responds True show ?thesis by (intro err) (simp add: search_200)
        next
          case (Inr r)
          then obtain data where "extract_records ?c data = Inr r"
            by (auto simp: bindE_def split: sum.splits)
          from extract_records_shape [OF this] obtain docs total n
            where len: "py_len docs = Inr n"
              and r: "r = PDict [(''results'', docs), (''total'', total),
                                 (''shown'', PInt (int n)), (''query'', PStr ?c)]"
            by blast
          from kw Responds True Inr have "?r = Inr r" by (simp add: search_200)
          with r len kw show ?thesis
            by (simp add: sent_request sent_field_def)
        qed
      qed
    qed
  qed
qed

text \<open>The amended claim C8 at the Solr-style body.\<close>

theorem C8_result_fields_witness:
  "result_field
     (fst (search_uspto_dsapi exn_name
          (Responds 200
             (Inr (PDict [(''response'',
                PDict [(''docs'', PList [PDict [(''a'', PInt 1)]]), (''numFound'', PInt 5)])]))
             (Inr ''''))
          [''laser''] (PStr ''AND'') 10)) ''shown'' = Some (PInt 1) \<and>
   result_field
     (fst (search_uspto_dsapi exn_name
          (Responds 200
             (Inr (PDict [(''response'',
                PDict [(''docs'', PList [PDict [(''a'', PInt 1)]]), (''numFound'', PInt 5)])]))
             (Inr ''''))
          [''laser''] (PStr ''AND'') 10)) ''query'' = Some (PStr ''*:laser*'')"
  using C8_result_fields [of exn_name
      "Responds 200
             (Inr (PDict [(''response'',
                PDict [(''docs'', PList [PDict [(''a'', PInt 1)]]), (''numFound'', PInt 5)])]))
             (Inr '''')" "[''laser'']" "''AND''" 10]
  by (simp add: search_solr_example result_field_def)

section \<open>Requests without keywords\<close>

lemma strip_keywords_blank:
  assumes "\<forall>kw \<in> set kws. strip kw = []"
  shows "strip_keywords (map PStr kws) = Inr []"
  using assms by (induction kws) (simp_all add: bindE_def)

text \<open>
  Claim C6 as the specification words it: every request whose keywords are all blank
  gets the error result. The handler converts the limit first (line 119): with a limit of
  \<open>null\<close>, \<open>int(None)\<close> raises before the keywords are looked at. Nothing is sent, but no
  result is returned either.
\<close>

theorem C6_counterexample:
  "search exn_name (Raises (Failure ''unreachable''))
     (PDict [(''keywords'', PList [PStr ''  '']), (''limit'', PNone)]) = (Inl TypeError, [])"
  by (simp add: search_def bindE_def)

text \<open>
  Claim C6, amended: for every request body whose keyword list is absent, empty or holds
  only strings that are empty after trimming, and whose limit is absent or converts to an
  integer, the handler sends no request and answers with the error "Please provide at
  least one keyword", results empty, total 0, whatever the operator is. Called with the
  empty keyword list, the search function itself sends no request and returns the error
  "No keywords provided", results empty, total 0.
\<close>

theorem C6_blank_keywords_send_nothing:
  assumes "map_of kvs ''keywords'' = None \<or> map_of kvs ''keywords'' = Some (PList (map PStr kws))"
    and "\<forall>kw \<in> set kws. strip kw = []"
    and "map_of kvs ''limit'' = None \<or> (map_of kvs ''limit'' = Some l \<and> py_int l = Inr n)"
  shows "search describe net (PDict kvs) =
           (Inr (PDict [(''error'', PStr ''Please provide at least one keyword''),
                        (''results'', PList []), (''total'', PInt 0)]), []) \<and>
         search_uspto_dsapi describe net [] operator limit =
           (Inr (PDict [(''error'', PStr ''No keywords provided''),
                        (''results'', PList []), (''total'', PInt 0)]), [])"
proof
  have kws: "bindE (bindE (py_get (PDict kvs) ''keywords'' (PList [])) py_iter) strip_keywords = Inr []"
    using assms(1) strip_keywords_blank [OF assms(2)] by (auto simp: bindE_def)
  have lim: "\<exists>m. bindE (py_get (PDict kvs) ''limit'' (PInt 500)) py_int = Inr m"
    using assms(3) by (auto simp: bindE_def)
  from kws lim show "search describe net (PDict kvs) =
           (Inr (PDict [(''error'', PStr ''Please provide at least one keyword''),
                        (''results'', PList []), (''total'', PInt 0)]), [])"
    by (auto simp: search_def bindE_def error_result_def split: sum.splits)
  show "search_uspto_dsapi describe net [] operator limit =
           (Inr (PDict [(''error'', PStr ''No keywords provided''),
                        (''results'', PList []), (''total'', PInt 0)]), [])"
    by (simp add: search_no_keywords error_result_def)
qed

text \<open>The amended claim C6 at two blank keywords, a null operator and the limit 50.\<close>

theorem C6_blank_keywords_send_nothing_witness:
  "search exn_name (Raises (Failure ''unreachable''))
     (PDict [(''keywords'', PList [PStr ''  '', PStr '''']), (''operator'', PNone),
             (''limit'', PInt 50)]) =
     (Inr (PDict [(''error'', PStr ''Please provide at least one keyword''),
                  (''results'', PList []), (''total'', PInt 0)]), []) \<and>
   search_uspto_dsapi exn_name (Raises (Failure ''unreachable'')) [] PNone 50 =
     (Inr (PDict [(''error'', PStr ''No keywords provided''),
                  (''results'', PList []), (''total'', PInt 0)]), [])"
  using C6_blank_keywords_send_nothing [of
      "[(''keywords'', PList [PStr ''  '', PStr '''']), (''operator'', PNone), (''limit'', PInt 50)]"
      "[''  '', '''']" "PInt 50" 50 exn_name "Raises (Failure ''unreachable'')" PNone 50]
  by (simp add: strip_blank)

section \<open>The three shapes of a body\<close>

lemma contains_key_iff: "k \<in> fst ` set kvs \<longleftrightarrow> map_of kvs k \<noteq> None"
  by (simp add: map_of_eq_None_iff)

text \<open>
  Claim C2 as the specification words it: whenever the body has a \<open>response\<close> key, the
  total is \<open>response.numFound\<close>. For the body
  \<open>{"response": {"docs": null, "numFound": 7}}\<close> the \<open>len(docs)\<close> of line 74 raises,
  the \<open>except\<close> clause answers, and the total is 0, the results empty.
\<close>

theorem C2_counterexample:
  "result_field
     (fst (search_uspto_dsapi exn_name
        (Responds 200
           (Inr (PDict [(''response'', PDict [(''docs'', PNone), (''numFound'', PInt 7)])]))
           (Inr ''''))
        [''laser''] (PStr ''AND'') 10)) ''total'' = Some (PInt 0) \<and>
   result_field
     (fst (search_uspto_dsapi exn_name
        (Responds 200
           (Inr (PDict [(''response'', PDict [(''docs'', PNone), (''numFound'', PInt 7)])]))
           (Inr ''''))
        [''laser''] (PStr ''AND'') 10)) ''results'' = Some (PList [])"
  by (simp add: search_200 extract_records_def bindE_def error_result_def result_field_def)

text \<open>The three shapes, for a body that is a dict and for one that is not.\<close>

lemma extract_records_dict:
  "extract_records criteria (PDict kvs) =
     (case map_of kvs ''response'' of
        Some response \<Rightarrow>
          bindE (py_get response ''docs'' (PList [])) (\<lambda>docs.
          bindE (py_get response ''numFound'' (PInt 0)) (\<lambda>num_found.
          bindE (py_len docs) (\<lambda>n.
            Inr (PDict [(''results'', docs), (''total'', num_found),
                        (''shown'', PInt (int n)), (''query'', PStr criteria)]))))
      | None \<Rightarrow>
          (case map_of kvs ''docs'' of
             Some docs \<Rightarrow>
               bindE (py_len docs) (\<lambda>n.
                 Inr (PDict [(''results'', docs), (''total'', PInt (int n)),
                             (''shown'', PInt (int n)), (''query'', PStr criteria)]))
           | None \<Rightarrow>
               Inr (PDict [(''results'', PList [PDict kvs]), (''total'', PInt 1),
                           (''shown'', PInt 1), (''query'', PStr criteria)])))"
  by (simp add: extract_records_def bindE_def contains_key_iff split: option.splits)

lemma extract_records_not_dict:
  assumes "\<not> is_dict data"
  shows "case extract_records criteria data of
           Inl e \<Rightarrow> True
         | Inr r \<Rightarrow> r = PDict [(''results'', PList []), (''total'', PInt 0),
                               (''shown'', PInt 0), (''query'', PStr criteria)]"
  using assms by (cases data) (auto simp: extract_records_def bindE_def split: sum.splits)

text \<open>
  Claim C2, amended: for a search that reaches the exchange (non-empty keywords, a string
  operator) and a status 200 with the decoded body \<open>data\<close>, the results and the total
  are:
  \<^item> when \<open>data\<close> is an object with a \<open>response\<close> key whose value is an object: its
    \<open>docs\<close> (default the empty list) and its \<open>numFound\<close> (default 0), provided that
    \<open>docs\<close> has a length (a list, a string or an object);
  \<^item> when \<open>data\<close> is an object without a \<open>response\<close> key and with a \<open>docs\<close> key: that
    value and its length, provided that it has a length;
  \<^item> when \<open>data\<close> is an object with neither key: the list of \<open>data\<close> alone, and 1;
  \<^item> in every other case (a body that is not an object, a \<open>response\<close> that is not an
    object, a \<open>docs\<close> without a length): the empty list and 0.
\<close>

theorem C2_normalisation:
  assumes "keywords \<noteq> []"
  shows "(result_field
            (fst (search_uspto_dsapi describe (Responds 200 (Inr data) text) keywords
                    (PStr operator) limit)) ''results'',
          result_field
            (fst (search_uspto_dsapi describe (Responds 200 (Inr data) text) keywords
                    (PStr operator) limit)) ''total'') =
         (case data of
            PDict kvs \<Rightarrow>
              (case map_of kvs ''response'' of
                 Some response \<Rightarrow>
                   (case response of
                      PDict rkvs \<Rightarrow>
                        (let docs = (case map_of rkvs ''docs'' of None \<Rightarrow> PList [] | Some v \<Rightarrow> v);
                             num_found =
                               (case map_of rkvs ''numFound'' of None \<Rightarrow> PInt 0 | Some v \<Rightarrow> v)
                         in case py_len docs of
                              Inr n \<Rightarrow> (Some docs, Some num_found)
                            | Inl e \<Rightarrow> (Some (PList []), Some (PInt 0)))
                    | _ \<Rightarrow> (Some (PList []), Some (PInt 0)))
               | None \<Rightarrow>
                   (case map_of kvs ''docs'' of
                      Some docs \<Rightarrow>
                        (case py_len docs of
                           Inr n \<Rightarrow> (Some docs, Some (PInt (int n)))
                         | Inl e \<Rightarrow> (Some (PList []), Some (PInt 0)))
                    | None \<Rightarrow> (Some (PList [data]), Some (PInt 1))))
          | _ \<Rightarrow> (Some (PList []), Some (PInt 0)))"
proof (cases "is_dict data")
  case True
  then obtain kvs where data: "data = PDict kvs" by (cases data) simp_all
  show ?thesis
  proof (cases "map_of kvs ''response''")
    case None
    with assms data show ?thesis
      by (auto simp: search_200 extract_records_dict bindE_def error_result_def result_field_def
          split: option.splits sum.splits)
  next
    case (Some response)
    with assms data show ?thesis
      by (cases response)
         (auto simp: search_200 extract_records_dict bindE_def error_result_def result_field_def
            Let_def split: option.splits sum.splits)
  qed
next
  case False
  from extract_records_not_dict [OF False, of "build_criteria keywords operator"]
  have "(result_field
            (fst (search_uspto_dsapi describe (Responds 200 (Inr data) text) keywords
                    (PStr operator) limit)) ''results'',
          result_field
            (fst (search_uspto_dsapi describe (Responds 200 (Inr data) text) keywords
                    (PStr operator) limit)) ''total'') = (Some (PList []), Some (PInt 0))"
    using assms
    by (auto simp: search_200 bindE_def error_result_def result_field_def split: sum.splits)
  with False show ?thesis by (cases data) simp_all
qed

text \<open>The amended claim C2 at the Solr-style body: one record, total 5.\<close>

theorem C2_normalisation_witness:
  "(result_field
      (fst (search_uspto_dsapi exn_name
         (Responds 200
            (Inr (PDict [(''response'',
               PDict [(''docs'', PList [PDict [(''a'', PInt 1)]]), (''numFound'', PInt 5)])]))
            (Inr ''''))
         [''laser''] (PStr ''AND'') 10)) ''results'',
    result_field
      (fst (search_uspto_dsapi exn_name
         (Responds 200
            (Inr (PDict [(''response'',
               PDict [(''docs'', PList [PDict [(''a'', PInt 1)]]), (''numFound'', PInt 5)])]))
            (Inr ''''))
         [''laser''] (PStr ''AND'') 10)) ''total'') =
   (Some (PList [PDict [(''a'', PInt 1)]]), Some (PInt 5))"
  using C2_normalisation [of "[''laser'']" exn_name
      "PDict [(''response'',
               PDict [(''docs'', PList [PDict [(''a'', PInt 1)]]), (''numFound'', PInt 5)])]"
      "Inr ''''" "''AND''" 10]
  by simp

section \<open>The two entry points side by side\<close>

text \<open>The interactive path's three shapes, for a body that is a dict and for one that is not.\<close>

lemma cli_extract_records_dict:
  "cli_extract_records (PDict kvs) =
     (case map_of kvs ''response'' of
        Some response \<Rightarrow>
          bindE (py_get response ''docs'' (PList [])) (\<lambda>docs.
          bindE (py_get response ''numFound'' (PInt 0)) (\<lambda>num_found.
          bindE (py_len docs) (\<lambda>n. Inr docs)))
      | None \<Rightarrow>
          (case map_of kvs ''docs'' of
             Some docs \<Rightarrow> Inr docs
           | None \<Rightarrow> Inr (PList [PDict kvs])))"
  by (simp add: cli_extract_records_def bindE_def contains_key_iff split: option.splits)

lemma cli_extract_records_not_dict:
  assumes "\<not> is_dict data"
  shows "case cli_extract_records data of Inl e \<Rightarrow> True | Inr r \<Rightarrow> r = PList []"
  using assms by (cases data) (auto simp: cli_extract_records_def bindE_def split: sum.splits)

text \<open>The records of the web result are what the interactive path returns.\<close>

lemma same_records:
  assumes "\<And>kvs v. data = PDict kvs \<Longrightarrow> map_of kvs ''response'' = None \<Longrightarrow>
             map_of kvs ''docs'' = Some v \<Longrightarrow> \<exists>n. py_len v = Inr n"
  shows "(case extract_records criteria data of
            Inl e \<Rightarrow> PList []
          | Inr r \<Rightarrow> the (result_field (Inr r) ''results'')) =
         (case cli_extract_records data of Inl e \<Rightarrow> PList [] | Inr docs \<Rightarrow> docs)"
proof (cases "is_dict data")
  case True
  then obtain kvs where data: "data = PDict kvs" by (cases data) simp_all
  show ?thesis
  proof (cases "map_of kvs ''response''")
    case (Some response)
    with data show ?thesis
      by (cases response)
         (auto simp: extract_records_dict cli_extract_records_dict bindE_def result_field_def
            split: sum.splits option.splits)
  next
    case None
    show ?thesis
    proof (cases "map_of kvs ''docs''")
      case inner: None
      with None data show ?thesis
        by (simp add: extract_records_dict cli_extract_records_dict result_field_def)
    next
      case (Some v)
      from assms [OF data None Some] obtain n where "py_len v = Inr n" by blast
      with None Some data show ?thesis
        by (simp add: extract_records_dict cli_extract_records_dict bindE_def result_field_def)
    qed
  qed
next
  case False
  from extract_records_not_dict [OF False, of criteria] cli_extract_records_not_dict [OF False]
  show ?thesis
    by (auto simp: result_field_def split: sum.splits)
qed

text \<open>
  Claim C9 as the specification words it: for the same keyword, limit and upstream
  response the two entry points produce the same result envelope. For the Solr-style body
  the web path returns a dict with results, total, shown and query; the interactive path
  returns the list of records and nothing else.
\<close>

theorem C9_counterexample:
  "fst (search_uspto_dsapi exn_name
          (Responds 200
             (Inr (PDict [(''response'',
                PDict [(''docs'', PList [PDict [(''a'', PInt 1)]]), (''numFound'', PInt 5)])]))
             (Inr ''''))
          [''laser''] (PStr ''AND'') 10) =
     Inr (PDict [(''results'', PList [PDict [(''a'', PInt 1)]]), (''total'', PInt 5),
                 (''shown'', PInt 1), (''query'', PStr ''*:laser*'')]) \<and>
   fst (cli_search_uspto_dsapi
          (Responds 200
             (Inr (PDict [(''response'',
                PDict [(''docs'', PList [PDict [(''a'', PInt 1)]]), (''numFound'', PInt 5)])]))
             (Inr ''''))
          ''laser'' 10) = PList [PDict [(''a'', PInt 1)]]"
  by (simp add: search_solr_example cli_search_uspto_dsapi_def cli_extract_records_dict bindE_def)

text \<open>
  Claim C9, amended: for one keyword, any string operator on the web path, a limit of at
  most 10000 and the same outcome of the exchange, where a top-level \<open>docs\<close> value, if
  there is one, has a length, the two entry points send the same request (URL, criteria,
  start, rows, headers), and the value the interactive path returns is the \<open>results\<close>
  of the dict the web path returns. (The interactive path takes a single keyword and
  no operator, and returns the records alone, without total, shown, query or error.)
\<close>

theorem C9_same_request_same_records:
  assumes "limit \<le> 10000"
    and "\<And>kvs reply v. net = Responds 200 (Inr (PDict kvs)) reply \<Longrightarrow>
           map_of kvs ''response'' = None \<Longrightarrow> map_of kvs ''docs'' = Some v \<Longrightarrow>
           \<exists>n. py_len v = Inr n"
  shows "snd (search_uspto_dsapi describe net [keyword] (PStr operator) limit) =
           snd (cli_search_uspto_dsapi net keyword limit) \<and>
         result_field (fst (search_uspto_dsapi describe net [keyword] (PStr operator) limit))
           ''results'' = Some (fst (cli_search_uspto_dsapi net keyword limit))"
proof
  from assms(1) have "min limit 10000 = limit" by simp
  then show "snd (search_uspto_dsapi describe net [keyword] (PStr operator) limit) =
           snd (cli_search_uspto_dsapi net keyword limit)"
    by (simp add: sent_request cli_sent_request build_criteria_def)
  show "result_field (fst (search_uspto_dsapi describe net [keyword] (PStr operator) limit))
           ''results'' = Some (fst (cli_search_uspto_dsapi net keyword limit))"
  proof (cases net)
    case (Raises e)
    then show ?thesis
      by (simp add: search_raises cli_search_uspto_dsapi_def error_result_def result_field_def)
  next
    case (Responds status body reply)
    show ?thesis
    proof (cases "status = 200")
      case False
      with Responds show ?thesis
        by (simp add: search_not_200 cli_search_uspto_dsapi_def error_result_def result_field_def)
    next
      case True
      show ?thesis
      proof (cases body)
        case (Inl e)
        with Responds True show ?thesis
          by (simp add: search_200 cli_search_uspto_dsapi_def bindE_def error_result_def
              result_field_def)
      next
        case (Inr data)
        let ?c = "build_criteria [keyword] operator"
        have sized: "\<exists>n. py_len v = Inr n"
          if "data = PDict kvs" "map_of kvs ''response'' = None" "map_of kvs ''docs'' = Some v"
          for kvs v
          using assms(2) [of kvs reply v] that Responds True Inr by simp
        from extract_records_shape [of ?c data]
        have shape: "\<exists>docs. result_field (Inr r) ''results'' = Some docs"
          if "extract_records ?c data = Inr r" for r
          using that by (auto simp: result_field_def)
        from same_records [of data ?c] sized
        have "(case extract_records ?c data of
                 Inl e \<Rightarrow> PList []
               | Inr r \<Rightarrow> the (result_field (Inr r) ''results'')) =
              (case cli_extract_records data of Inl e \<Rightarrow> PList [] | Inr docs \<Rightarrow> docs)"
          by blast
        with shape Responds True Inr show ?thesis
          by (auto simp: search_200 cli_search_uspto_dsapi_def bindE_def error_result_def
              result_field_def split: sum.splits)
      qed
    qed
  qed
qed

text \<open>A body with a top-level \<open>docs\<close> list of two records, on the interactive path.\<close>

lemma cli_docs_example:
  "cli_search_uspto_dsapi
     (Responds 200 (Inr (PDict [(''docs'', PList [PDict [(''a'', PInt 1)], PDict [(''b'', PInt 2)]])]))
        (Inr ''''))
     ''laser'' 25 =
   (PList [PDict [(''a'', PInt 1)], PDict [(''b'', PInt 2)]],
    [\<lparr>url = records_url,
      form = [(''criteria'', ''*:laser*''), (''start'', ''0''), (''rows'', ''25'')],
      headers = [(''Accept'', ''application/json'')]\<rparr>])"
  by (simp add: cli_search_uspto_dsapi_def cli_extract_records_dict bindE_def str_int_examples)

text \<open>The amended claim C9 at that body, the keyword "laser" and the limit 25.\<close>

theorem C9_same_request_same_records_witness:
  "snd (search_uspto_dsapi exn_name
          (Responds 200
             (Inr (PDict [(''docs'', PList [PDict [(''a'', PInt 1)], PDict [(''b'', PInt 2)]])]))
             (Inr ''''))
          [''laser''] (PStr ''or'') 25) =
     [\<lparr>url = records_url,
       form = [(''criteria'', ''*:laser*''), (''start'', ''0''), (''rows'', ''25'')],
       headers = [(''Accept'', ''application/json'')]\<rparr>] \<and>
   result_field
     (fst (search_uspto_dsapi exn_name
          (Responds 200
             (Inr (PDict [(''docs'', PList [PDict [(''a'', PInt 1)], PDict [(''b'', PInt 2)]])]))
             (Inr ''''))
          [''laser''] (PStr ''or'') 25)) ''results'' =
     Some (PList [PDict [(''a'', PInt 1)], PDict [(''b'', PInt 2)]])"
proof -
  have sized: "\<exists>n. py_len v = Inr n"
    if "Responds 200
          (Inr (PDict [(''docs'', PList [PDict [(''a'', PInt 1)], PDict [(''b'', PInt 2)]])]))
          (Inr '''') = Responds 200 (Inr (PDict kvs)) reply"
      and "map_of kvs ''response'' = None" and "map_of kvs ''docs'' = Some v"
    for kvs reply v
    using that by auto
  have small: "(25::int) \<le> 10000" by simp
  from C9_same_request_same_records [of 25
      "Responds 200
         (Inr (PDict [(''docs'', PList [PDict [(''a'', PInt 1)], PDict [(''b'', PInt 2)]])]))
         (Inr '''')" exn_name "''laser''" "''or''", OF small sized]
  show ?thesis by (simp add: cli_docs_example)
qed

end
